theory Spec2Isabelle
  imports Main
begin

section \<open>Outcomes of a call\<close>

text \<open>
  A call of the library either returns, or ends the process through the abort primitive of
  \<^verbatim>\<open>panic.h\<close> (the text written to the error stream is kept), or leaves through one of the
  two exceptions of the standard containers the classes are built on:
  \<^verbatim>\<open>std::optional<T>::value()\<close> on an empty optional and \<^verbatim>\<open>std::get<I>\<close> on a variant
  that does not hold alternative \<^verbatim>\<open>I\<close>.
\<close>

datatype exn = bad_optional_access | bad_variant_access

datatype 'a outcome = Returned 'a | Aborted string | Thrown exn

fun seq :: "'a outcome \<Rightarrow> ('a \<Rightarrow> 'b outcome) \<Rightarrow> 'b outcome" where
  "seq (Returned v) k = k v"
| "seq (Aborted m) k = Aborted m"
| "seq (Thrown e) k = Thrown e"

text \<open>
  A \<^verbatim>\<open>std::function<B(A)>\<close> may read and change the state of the program when it is
  invoked, so a closure is a function on a state \<open>'s\<close> (a call counter, say). A member
  function that takes a closure is a program on that state: it returns an outcome and the
  state it leaves behind. A closure that is never invoked leaves the state as it was.
\<close>

type_synonym ('a, 'b, 's) fn = "'a \<Rightarrow> 's \<Rightarrow> 'b \<times> 's"

type_synonym ('b, 's) fn0 = "'s \<Rightarrow> 'b \<times> 's"

type_synonym ('a, 's) prog = "'s \<Rightarrow> 'a outcome \<times> 's"

definition ret :: "'a \<Rightarrow> ('a, 's) prog" where
  "ret v = (\<lambda>s. (Returned v, s))"

definition lift :: "'a outcome \<Rightarrow> ('a, 's) prog" where
  "lift r = (\<lambda>s. (r, s))"

definition call :: "('a, 'b, 's) fn \<Rightarrow> 'a \<Rightarrow> ('b, 's) prog" where
  "call f a = (\<lambda>s. case f a s of (b, s') \<Rightarrow> (Returned b, s'))"

definition call0 :: "('b, 's) fn0 \<Rightarrow> ('b, 's) prog" where
  "call0 f = (\<lambda>s. case f s of (b, s') \<Rightarrow> (Returned b, s'))"

definition bnd :: "('a, 's) prog \<Rightarrow> ('a \<Rightarrow> ('b, 's) prog) \<Rightarrow> ('b, 's) prog" where
  "bnd p k = (\<lambda>s. case p s of
                     (Returned v, s') \<Rightarrow> k v s'
                   | (Aborted m, s') \<Rightarrow> (Aborted m, s')
                   | (Thrown e, s') \<Rightarrow> (Thrown e, s'))"


section \<open>The abort primitive (panic.h)\<close>

text \<open>
  A C string ends at its first NUL byte: what a \<^verbatim>\<open>const char *\<close> to these bytes denotes.
\<close>

definition c_str :: "string \<Rightarrow> string" where
  "c_str s = takeWhile (\<lambda>c. c \<noteq> CHR 0x00) s"

text \<open>
  A \<^verbatim>\<open>std::source_location\<close> holds a pointer to the bytes of the file name and a line
  number; \<^verbatim>\<open>file_name()\<close> returns the C string at the pointer.
\<close>

record source_location =
  file_name_bytes :: string
  line :: nat

definition file_name :: "source_location \<Rightarrow> string" where
  "file_name loc = c_str (file_name_bytes loc)"

text \<open>
  \<^verbatim>\<open>std::format\<close>, as far as the library uses it: every replacement field is the plain
  \<^verbatim>\<open>{}\<close>, and the arguments are strings and unsigned line numbers. An argument is inserted
  as it is and never scanned for fields again.
\<close>

datatype fmt_arg = Str string | UInt nat

fun digit :: "nat \<Rightarrow> char" where
  "digit n = char_of (48 + n)"

fun to_dec :: "nat \<Rightarrow> string" where
  "to_dec n = (if n < 10 then [digit n] else to_dec (n div 10) @ [digit (n mod 10)])"

fun format_arg :: "fmt_arg \<Rightarrow> string" where
  "format_arg (Str s) = s"
| "format_arg (UInt n) = to_dec n"

fun format :: "string \<Rightarrow> fmt_arg list \<Rightarrow> string" where
  "format [] args = []"
| "format [c] args = [c]"
| "format (c # d # rest) args =
     (if c = CHR ''{'' \<and> d = CHR ''}''
      then (case args of
              a # others \<Rightarrow> format_arg a @ format rest others
            | [] \<Rightarrow> c # format (d # rest) args)
      else c # format (d # rest) args)"

text \<open>
  \<^verbatim>\<open>__panic_impl(loc, fmt, args...)\<close>: the message \<^verbatim>\<open>m\<close> is formatted, then
  \<^verbatim>\<open>std::fputs(m.c_str(), stderr)\<close> writes it to the error stream, that is the bytes of
  \<^verbatim>\<open>m\<close> before its first NUL, and \<^verbatim>\<open>std::abort()\<close> ends the process; the function is
  \<^verbatim>\<open>[[noreturn]]\<close>.
\<close>

definition panic_impl :: "source_location \<Rightarrow> string \<Rightarrow> fmt_arg list \<Rightarrow> 'a outcome" where
  "panic_impl loc fmt args =
     Aborted (c_str (format ''panicked at {}:{}\<newline>{}\<newline>''
                       [Str (file_name loc), UInt (line loc), Str (format fmt args)]))"

text \<open>\<^verbatim>\<open>std::to_string(int)\<close>: the decimal digits, after a minus sign below zero.\<close>

definition to_string_int :: "int \<Rightarrow> string" where
  "to_string_int i = (if i < 0 then CHR ''-'' # to_dec (nat (- i)) else to_dec (nat i))"


section \<open>Option (option.h)\<close>

text \<open>
  \<^verbatim>\<open>Option<T>\<close> derives privately from \<^verbatim>\<open>std::optional<T>\<close>. The only thing the code asks of
  the template argument \<^verbatim>\<open>T\<close> is \<^verbatim>\<open>std::is_same<T, std::monostate>\<close>, so an Option carries
  that answer beside its optional. The payload type itself is the HOL type \<open>'a\<close>
  (\<open>unit\<close> for \<^verbatim>\<open>std::monostate\<close>). Template arguments that a member function needs to
  build its result (\<^verbatim>\<open>U\<close> in \<^verbatim>\<open>map<U>\<close>) are explicit parameters.
\<close>

datatype ctype = Monostate | Other

datatype 'a Option = Option (ty: ctype) (base: "'a option")

definition Option_empty :: "ctype \<Rightarrow> 'a Option" where
  \<comment> \<open>\<^verbatim>\<open>Option() : std::optional<T>() {}\<close>\<close>
  "Option_empty T = Option T None"

definition Option_value :: "ctype \<Rightarrow> 'a \<Rightarrow> 'a Option" where
  \<comment> \<open>\<^verbatim>\<open>Option(T t) : std::optional<T>(t) {}\<close>\<close>
  "Option_value T t = Option T (Some t)"

definition Some_opt :: "ctype \<Rightarrow> 'a \<Rightarrow> 'a Option" where
  \<comment> \<open>\<^verbatim>\<open>Some(T t) { return Option(t); }\<close>\<close>
  "Some_opt T t = Option_value T t"

definition None_opt :: "ctype \<Rightarrow> 'a Option" where
  \<comment> \<open>\<^verbatim>\<open>None<T>() { return Option<T>(); }\<close>, \<^verbatim>\<open>T = std::monostate\<close> when omitted\<close>
  "None_opt T = Option_empty T"


definition has_value :: "'a Option \<Rightarrow> bool" where
  "has_value this = (base this \<noteq> None)"

definition optional_value :: "'a Option \<Rightarrow> 'a outcome" where
  \<comment> \<open>\<^verbatim>\<open>this->value()\<close>\<close>
  "optional_value this = (case base this of Some v \<Rightarrow> Returned v | None \<Rightarrow> Thrown bad_optional_access)"

definition is_some :: "'a Option \<Rightarrow> bool" where
  \<comment> \<open>Can't be some if this contains the monostate\<close>
  "is_some this = (ty this \<noteq> Monostate \<and> has_value this)"

definition is_none :: "'a Option \<Rightarrow> bool" where
  "is_none this = (\<not> is_some this)"

definition Option_unwrap :: "source_location \<Rightarrow> 'a Option \<Rightarrow> 'a outcome" where
  "Option_unwrap loc this =
     (if is_some this then optional_value this
      else panic_impl loc ''called `Option::unwrap()` on a `None` value'' [])"

subsection \<open>Equality\<close>

text \<open>
  The three overloads of \<^verbatim>\<open>operator==\<close>, in the order of the header: the right operand
  is an \<^verbatim>\<open>Option<std::monostate>\<close>; the payload types satisfy
  \<^verbatim>\<open>std::equality_comparable_with<T, U>\<close>, where \<open>eqv\<close> is the \<^verbatim>\<open>==\<close> between a \<^verbatim>\<open>T\<close> and a
  \<^verbatim>\<open>U\<close>; the payload types are not comparable. In the second, \<^verbatim>\<open>||\<close> evaluates its right
  operand only when the left one is false.
\<close>

definition eq_monostate :: "'a Option \<Rightarrow> 'm Option \<Rightarrow> bool" where
  \<comment> \<open>Monostate is always None, only equal if we are too\<close>
  "eq_monostate this rhs = is_none this"

definition eq_comparable ::
  "('a \<Rightarrow> 'b \<Rightarrow> bool) \<Rightarrow> source_location \<Rightarrow> 'a Option \<Rightarrow> 'b Option \<Rightarrow> bool outcome" where
  "eq_comparable eqv loc this rhs =
     (if is_none this \<noteq> is_none rhs then Returned False
      else if is_none this \<and> is_none rhs then Returned True
      else seq (optional_value this) (\<lambda>a. seq (Option_unwrap loc rhs) (\<lambda>b. Returned (eqv a b))))"

definition eq_incomparable :: "'a Option \<Rightarrow> 'b Option \<Rightarrow> bool" where
  \<comment> \<open>Not value-comparable so not equal\<close>
  "eq_incomparable this rhs = ((is_none this \<and> is_none rhs) \<or> False)"

text \<open>
  Which overload \<^verbatim>\<open>lhs == rhs\<close> calls is settled by the static types: the non-template
  overload when the right operand is an \<^verbatim>\<open>Option<std::monostate>\<close>, else the constrained
  template when the payload types are comparable (\<open>cmp = Some eqv\<close>), else the unconstrained
  one (\<open>cmp = None\<close>). \<open>loc\<close> is the place of the call of \<^verbatim>\<open>unwrap\<close> inside the header.
\<close>

definition Option_eq ::
  "('a \<Rightarrow> 'b \<Rightarrow> bool) option \<Rightarrow> source_location \<Rightarrow> 'a Option \<Rightarrow> 'b Option \<Rightarrow> bool outcome" where
  "Option_eq cmp loc this rhs =
     (if ty rhs = Monostate then Returned (eq_monostate this rhs)
      else case cmp of
             Some eqv \<Rightarrow> eq_comparable eqv loc this rhs
           | None \<Rightarrow> Returned (eq_incomparable this rhs))"


subsection \<open>Combinators\<close>

text \<open>
  \<^verbatim>\<open>map\<close> and \<^verbatim>\<open>and_then\<close> of the primary template, and their explicit specialisations
  for \<^verbatim>\<open>Option<std::monostate>\<close>, whose closure parameter is unused.
\<close>

definition Option_map :: "ctype \<Rightarrow> ('a, 'b, 's) fn \<Rightarrow> 'a Option \<Rightarrow> ('b Option, 's) prog" where
  "Option_map U f this =
     (if is_none this then ret (Option_empty U)
      else bnd (lift (optional_value this)) (\<lambda>v. bnd (call f v) (\<lambda>u. ret (Option_value U u))))"

definition Option_monostate_map ::
  "ctype \<Rightarrow> ('r, 'b, 's) fn \<Rightarrow> 'm Option \<Rightarrow> ('b Option, 's) prog" where
  "Option_monostate_map U f this = ret (Option_empty U)"

definition Option_and_then ::
  "ctype \<Rightarrow> ('a, 'b Option, 's) fn \<Rightarrow> 'a Option \<Rightarrow> ('b Option, 's) prog" where
  "Option_and_then U f this =
     (if is_none this then ret (Option_empty U)
      else bnd (lift (optional_value this)) (\<lambda>v. call f v))"

definition Option_monostate_and_then ::
  "ctype \<Rightarrow> ('r, 'b Option, 's) fn \<Rightarrow> 'm Option \<Rightarrow> ('b Option, 's) prog" where
  "Option_monostate_and_then U f this = ret (Option_empty U)"


text \<open>
  The overloads of \<^verbatim>\<open>xor_b\<close> that have a definition: both operands of the same type
  \<^verbatim>\<open>Option<T>\<close>; the argument an \<^verbatim>\<open>Option<std::monostate>\<close> (only for \<^verbatim>\<open>T\<close> other than
  \<^verbatim>\<open>std::monostate\<close>); the receiver an \<^verbatim>\<open>Option<std::monostate>\<close> and the argument any
  \<^verbatim>\<open>Option<U>\<close>. The member template \<^verbatim>\<open>xor_b(Option<U>)\<close> is declared for every \<^verbatim>\<open>T\<close> but
  defined for \<^verbatim>\<open>std::monostate\<close> alone, so no other combination of types links. An operand
  is returned only where it reports \<^verbatim>\<open>is_some()\<close>; its payload type is then not
  \<^verbatim>\<open>std::monostate\<close> and the copy returned is the operand.
\<close>

definition Option_xor_b :: "'a Option \<Rightarrow> 'a Option \<Rightarrow> 'a Option" where
  "Option_xor_b this optb =
     (if is_some this \<and> is_none optb then this
      else if is_none this \<and> is_some optb then optb
      else Option_empty (ty this))"

definition Option_xor_b_None :: "'a Option \<Rightarrow> 'm Option \<Rightarrow> 'a Option" where
  "Option_xor_b_None this optb = (if is_some this then this else Option_empty (ty this))"

definition Option_monostate_xor_b :: "'m Option \<Rightarrow> 'b Option \<Rightarrow> 'b Option" where
  "Option_monostate_xor_b this optb = (if is_some optb then optb else Option_empty (ty optb))"


section \<open>Result (result.h)\<close>

text \<open>
  A \<^verbatim>\<open>std::variant<T, E>\<close> holds alternative 0, a \<^verbatim>\<open>T\<close>, or alternative 1, an \<^verbatim>\<open>E\<close>, or it
  is valueless after an exception thrown while it was assigned. \<^verbatim>\<open>index()\<close> of a valueless
  variant is \<^verbatim>\<open>std::variant_npos\<close>, the largest \<^verbatim>\<open>std::size_t\<close> (of 64 bits here), and
  \<^verbatim>\<open>std::get<I>\<close> throws on it as on the other alternative.
\<close>

datatype ('t, 'e) variant = Alt0 't | Alt1 'e | Valueless

definition variant_npos :: nat where
  "variant_npos = 2 ^ 64 - 1"

text \<open>
  \<^verbatim>\<open>Result<T, E>\<close> derives privately from \<^verbatim>\<open>std::variant<T, E>\<close>, and its public constructor
  takes any such variant. Constructing a \<^verbatim>\<open>Result<T, E>\<close> from a plain value goes through the
  converting constructor of the variant, which takes the alternative of the value's static
  type: \<open>Alt0\<close> for a \<^verbatim>\<open>T\<close>, \<open>Alt1\<close> for an \<^verbatim>\<open>E\<close> (the two types differ, or the conversion
  is ill-formed).
\<close>

datatype ('t, 'e) Result = Result (variant: "('t, 'e) variant")

definition Ok :: "'t \<Rightarrow> ('t, 'e) Result" where
  \<comment> \<open>\<^verbatim>\<open>std::in_place_index<0>\<close>\<close>
  "Ok t = Result (Alt0 t)"

definition Err :: "'e \<Rightarrow> ('t, 'e) Result" where
  \<comment> \<open>\<^verbatim>\<open>std::in_place_index<1>\<close>\<close>
  "Err e = Result (Alt1 e)"

definition index :: "('t, 'e) Result \<Rightarrow> nat" where
  "index this = (case variant this of Alt0 t \<Rightarrow> 0 | Alt1 e \<Rightarrow> 1 | Valueless \<Rightarrow> variant_npos)"

definition get_0 :: "('t, 'e) Result \<Rightarrow> 't outcome" where
  "get_0 this = (case variant this of
                   Alt0 t \<Rightarrow> Returned t
                 | Alt1 e \<Rightarrow> Thrown bad_variant_access
                 | Valueless \<Rightarrow> Thrown bad_variant_access)"

definition get_1 :: "('t, 'e) Result \<Rightarrow> 'e outcome" where
  "get_1 this = (case variant this of
                   Alt0 t \<Rightarrow> Thrown bad_variant_access
                 | Alt1 e \<Rightarrow> Returned e
                 | Valueless \<Rightarrow> Thrown bad_variant_access)"

definition is_ok :: "('t, 'e) Result \<Rightarrow> bool" where
  "is_ok this = (index this = 0)"

definition is_err :: "('t, 'e) Result \<Rightarrow> bool" where
  "is_err this = (index this = 1)"

text \<open>\<^verbatim>\<open>ok\<close> and \<^verbatim>\<open>err\<close> build an \<^verbatim>\<open>Option<T>\<close> and an \<^verbatim>\<open>Option<E>\<close>.\<close>

definition Result_ok :: "ctype \<Rightarrow> ('t, 'e) Result \<Rightarrow> 't Option outcome" where
  "Result_ok T this =
     (if is_ok this then seq (get_0 this) (\<lambda>v. Returned (Option_value T v))
      else Returned (Option_empty T))"

definition Result_err :: "ctype \<Rightarrow> ('t, 'e) Result \<Rightarrow> 'e Option outcome" where
  "Result_err E this =
     (if is_err this then seq (get_1 this) (\<lambda>e. Returned (Option_value E e))
      else Returned (Option_empty E))"

definition Result_map :: "('t, 'u, 's) fn \<Rightarrow> ('t, 'e) Result \<Rightarrow> (('u, 'e) Result, 's) prog" where
  "Result_map f this =
     (if is_ok this
      then bnd (lift (get_0 this)) (\<lambda>v. bnd (call f v) (\<lambda>u. ret (Result (Alt0 u))))
      else bnd (lift (get_1 this)) (\<lambda>e. ret (Result (Alt1 e))))"

definition Result_map_err ::
  "('e, 'f, 's) fn \<Rightarrow> ('t, 'e) Result \<Rightarrow> (('t, 'f) Result, 's) prog" where
  "Result_map_err op this =
     (if is_ok this
      then bnd (lift (get_0 this)) (\<lambda>v. ret (Result (Alt0 v)))
      else bnd (lift (get_1 this)) (\<lambda>e. bnd (call op e) (\<lambda>x. ret (Result (Alt1 x)))))"

text \<open>
  \<^verbatim>\<open>expect\<close> requires \<^verbatim>\<open>ToString<E>\<close>; \<open>to_string\<close> is the \<^verbatim>\<open>std::to_string\<close> of the error
  type.
\<close>

definition Result_expect ::
  "('e \<Rightarrow> string) \<Rightarrow> string \<Rightarrow> source_location \<Rightarrow> ('t, 'e) Result \<Rightarrow> 't outcome" where
  "Result_expect to_string msg loc this =
     (if is_ok this then get_0 this
      else seq (get_1 this) (\<lambda>e. panic_impl loc ''{}: {}'' [Str msg, Str (to_string e)]))"

text \<open>Promotion of an Option to a Result (option.h).\<close>

definition Option_ok_or :: "'e \<Rightarrow> 'a Option \<Rightarrow> ('a, 'e) Result outcome" where
  "Option_ok_or err this =
     (if is_none this then Returned (Result (Alt1 err))
      else seq (optional_value this) (\<lambda>v. Returned (Result (Alt0 v))))"

definition Option_ok_or_else :: "('e, 's) fn0 \<Rightarrow> 'a Option \<Rightarrow> (('a, 'e) Result, 's) prog" where
  "Option_ok_or_else err this =
     (if is_none this then bnd (call0 err) (\<lambda>e. ret (Result (Alt1 e)))
      else bnd (lift (optional_value this)) (\<lambda>v. ret (Result (Alt0 v))))"


section \<open>Basic facts\<close>

declare to_dec.simps [simp del]

lemma to_string_int_17: "to_string_int 17 = ''17''"
  by code_simp

lemma to_string_int_13: "to_string_int 13 = ''13''"
  by code_simp

lemma to_dec_94: "to_dec 94 = ''94''"
  by code_simp

lemma to_dec_42: "to_dec 42 = ''42''"
  by code_simp

lemma c_str_id: "CHR 0x00 \<notin> set s \<Longrightarrow> c_str s = s"
  by (auto simp: c_str_def)

lemma nul_notin_c_str: "CHR 0x00 \<notin> set (c_str s)"
  by (auto simp: c_str_def dest: set_takeWhileD)

lemma nul_notin_file_name: "CHR 0x00 \<notin> set (file_name loc)"
  by (simp add: file_name_def nul_notin_c_str)

lemma digit_not_nul: "n < 10 \<Longrightarrow> digit n \<noteq> CHR 0x00"
proof
  assume n: "n < 10" and "digit n = CHR 0x00"
  then have "of_char (digit n) = (0::nat)" by simp
  moreover have "of_char (digit n) = (48 + n) mod 256" by simp
  ultimately show False using n by simp
qed

lemma nul_notin_to_dec: "CHR 0x00 \<notin> set (to_dec n)"
proof (induction n rule: to_dec.induct)
  case (1 n)
  show ?case
  proof (cases "n < 10")
    case True
    then show ?thesis
      using digit_not_nul [of n] by (subst to_dec.simps) (auto simp del: digit.simps)
  next
    case False
    with "1" show ?thesis
      using digit_not_nul [of "n mod 10"] by (subst to_dec.simps) (auto simp del: digit.simps)
  qed
qed

lemma file_name_literal:
  "CHR 0x00 \<notin> set s \<Longrightarrow> file_name \<lparr>file_name_bytes = s, line = n\<rparr> = s"
  by (simp add: file_name_def c_str_id)

lemma panic_impl_message:
  "panic_impl loc fmt args =
     Aborted (c_str (''panicked at '' @ file_name loc @ '':'' @ to_dec (line loc) @ ''\<newline>''
                     @ format fmt args @ ''\<newline>''))"
  by (simp add: panic_impl_def)

lemma panic_impl_unwrap_message:
  "panic_impl loc ''called `Option::unwrap()` on a `None` value'' [] =
     Aborted (''panicked at '' @ file_name loc @ '':'' @ to_dec (line loc) @
              ''\<newline>called `Option::unwrap()` on a `None` value\<newline>'')"
proof -
  have "CHR 0x00 \<notin> set (''panicked at '' @ file_name loc @ '':'' @ to_dec (line loc) @
          ''\<newline>called `Option::unwrap()` on a `None` value\<newline>'')"
    by (simp add: nul_notin_file_name nul_notin_to_dec)
  then have "c_str (''panicked at '' @ file_name loc @ '':'' @ to_dec (line loc) @
          ''\<newline>called `Option::unwrap()` on a `None` value\<newline>'')
        = ''panicked at '' @ file_name loc @ '':'' @ to_dec (line loc) @
          ''\<newline>called `Option::unwrap()` on a `None` value\<newline>''"
    by (rule c_str_id)
  then show ?thesis
    by (simp add: panic_impl_message)
qed



lemma variant_npos_neq: "variant_npos \<noteq> 0" "variant_npos \<noteq> Suc 0"
  by (simp_all add: variant_npos_def)

lemma is_none_iff: "is_none this \<longleftrightarrow> ty this = Monostate \<or> base this = None"
  by (simp add: is_none_def is_some_def has_value_def)

lemma is_some_iff: "is_some this \<longleftrightarrow> ty this \<noteq> Monostate \<and> (\<exists>v. base this = Some v)"
  by (simp add: is_some_def has_value_def)

lemma is_some_value: "is_some this \<Longrightarrow> optional_value this = Returned (the (base this))"
  by (auto simp: is_some_iff optional_value_def)

lemma Option_unwrap_some: "is_some this \<Longrightarrow> Option_unwrap loc this = Returned (the (base this))"
  by (simp add: Option_unwrap_def is_some_value)

lemma is_none_Option_empty: "is_none (Option_empty T)"
  by (simp add: is_none_iff Option_empty_def)

lemma not_is_some_Option_empty: "\<not> is_some (Option_empty T)"
  by (simp add: is_some_iff Option_empty_def)

lemma ty_Option_empty: "ty (Option_empty T) = T"
  by (simp add: Option_empty_def)

lemma is_some_Some_opt: "is_some (Some_opt T x) \<longleftrightarrow> T \<noteq> Monostate"
  by (simp add: is_some_iff Some_opt_def Option_value_def)

lemma base_Some_opt: "base (Some_opt T x) = Some x"
  by (simp add: Some_opt_def Option_value_def)

lemma ty_Some_opt: "ty (Some_opt T x) = T"
  by (simp add: Some_opt_def Option_value_def)

lemma Result_cases: "(\<exists>v. r = Ok v) \<or> (\<exists>e. r = Err e) \<or> r = Result Valueless"
  by (cases r, rename_tac x, case_tac x) (simp_all add: Ok_def Err_def)

lemma is_ok_Valueless: "\<not> is_ok (Result Valueless)"
  and is_err_Valueless: "\<not> is_err (Result Valueless)"
  by (simp_all add: is_ok_def is_err_def index_def variant_npos_neq)

lemma variant_Ok: "variant (Ok v) = Alt0 v" and variant_Err: "variant (Err e) = Alt1 e"
  by (simp_all add: Ok_def Err_def)

lemma get_Valueless: "get_0 (Result Valueless) = Thrown bad_variant_access"
  "get_1 (Result Valueless) = Thrown bad_variant_access"
  by (simp_all add: get_0_def get_1_def)

lemma is_ok_Ok: "is_ok (Ok v)" and is_ok_Err: "\<not> is_ok (Err e)"
  and is_err_Ok: "\<not> is_err (Ok v)" and is_err_Err: "is_err (Err e)"
  by (simp_all add: is_ok_def is_err_def index_def Ok_def Err_def)

lemma get_Ok: "get_0 (Ok v) = Returned v" and get_Err: "get_1 (Err e) = Returned e"
  by (simp_all add: get_0_def get_1_def Ok_def Err_def)

lemma Result_ok_simps:
  "Result_ok T (Ok v) = Returned (Some_opt T v)" "Result_ok T (Err e) = Returned (None_opt T)"
  by (simp_all add: Result_ok_def is_ok_Ok is_ok_Err get_Ok Some_opt_def None_opt_def)

lemma Result_err_simps:
  "Result_err E (Err e) = Returned (Some_opt E e)" "Result_err E (Ok v) = Returned (None_opt E)"
  by (simp_all add: Result_err_def is_err_Ok is_err_Err get_Err Some_opt_def None_opt_def)

lemma Option_ok_or_none: "is_none this \<Longrightarrow> Option_ok_or e this = Returned (Err e)"
  by (simp add: Option_ok_or_def Err_def)

lemma Option_ok_or_some: "is_some this \<Longrightarrow> Option_ok_or e this = Returned (Ok (the (base this)))"
  by (simp add: Option_ok_or_def is_none_def is_some_value Ok_def)

text \<open>
  Since C++20 the compiler also tries \<^verbatim>\<open>rhs == lhs\<close> for \<^verbatim>\<open>lhs == rhs\<close>. When only the left
  operand is an \<^verbatim>\<open>Option<std::monostate>\<close>, that finds the non-template overload with the
  operands swapped; it returns what the template overloads return.
\<close>

lemma Option_eq_reversed_agrees:
  "ty this = Monostate \<Longrightarrow> ty rhs \<noteq> Monostate \<Longrightarrow>
     Option_eq cmp loc this rhs = Returned (eq_monostate rhs this)"
  by (simp add: Option_eq_def eq_monostate_def eq_comparable_def eq_incomparable_def is_none_iff
      split: option.split)


section \<open>Option: equality and the untyped marker\<close>

text \<open>
  C1. Equality of two Options is decided in every case and never fails: two empty
  Options are equal whatever their payload types (the untyped marker included), an empty
  and an occupied one are unequal, and two occupied ones are equal exactly when their
  payload types are comparable and the payloads are equal under that comparison; with
  payload types that are not comparable they are unequal.
\<close>

theorem Option_eq_trichotomy:
  "(is_none a \<and> is_none b \<longrightarrow> Option_eq cmp loc a b = Returned True) \<and>
   (is_none a \<and> is_some b \<longrightarrow> Option_eq cmp loc a b = Returned False) \<and>
   (is_some a \<and> is_none b \<longrightarrow> Option_eq cmp loc a b = Returned False) \<and>
   (is_some a \<and> is_some b \<longrightarrow>
      (\<exists>va vb. base a = Some va \<and> base b = Some vb \<and>
         Option_eq cmp loc a b =
           Returned (case cmp of Some eqv \<Rightarrow> eqv va vb | None \<Rightarrow> False)))"
proof (intro conjI impI)
  assume "is_none a \<and> is_none b"
  then show "Option_eq cmp loc a b = Returned True"
    by (simp add: Option_eq_def eq_monostate_def eq_comparable_def eq_incomparable_def
        split: option.split)
next
  assume "is_none a \<and> is_some b"
  then have "ty b \<noteq> Monostate" and "is_none a" and "\<not> is_none b"
    by (simp_all add: is_some_iff is_none_def)
  then show "Option_eq cmp loc a b = Returned False"
    by (simp add: Option_eq_def eq_comparable_def eq_incomparable_def split: option.split)
next
  assume "is_some a \<and> is_none b"
  then have "\<not> is_none a" and "is_none b"
    by (simp_all add: is_none_def)
  then show "Option_eq cmp loc a b = Returned False"
    by (simp add: Option_eq_def eq_monostate_def eq_comparable_def eq_incomparable_def
        split: option.split)
next
  assume ab: "is_some a \<and> is_some b"
  then obtain va vb where va: "base a = Some va" and vb: "base b = Some vb"
    by (auto simp: is_some_iff)
  from ab have ty: "ty b \<noteq> Monostate" and nn: "\<not> is_none a" "\<not> is_none b"
    by (simp_all add: is_some_iff is_none_def)
  from ab va vb have "optional_value a = Returned va" and "Option_unwrap loc b = Returned vb"
    by (simp_all add: is_some_value Option_unwrap_some)
  with ty nn have
    "Option_eq cmp loc a b = Returned (case cmp of Some eqv \<Rightarrow> eqv va vb | None \<Rightarrow> False)"
    by (simp add: Option_eq_def eq_comparable_def eq_incomparable_def split: option.split)
  with va vb show "\<exists>va vb. base a = Some va \<and> base b = Some vb \<and>
      Option_eq cmp loc a b = Returned (case cmp of Some eqv \<Rightarrow> eqv va vb | None \<Rightarrow> False)"
    by blast
qed

text \<open>
  The cases of the tests: \<^verbatim>\<open>None() == None<T>()\<close>, \<^verbatim>\<open>None() != Some(1)\<close>,
  \<^verbatim>\<open>Some(1) != None()\<close>, \<^verbatim>\<open>Some(1) == Some(1)\<close> and \<^verbatim>\<open>Some(1) != Some("x")\<close>.
\<close>

theorem Option_eq_trichotomy_witness:
  "is_none (None_opt Monostate :: unit Option) \<and> is_none (None_opt Other :: nat Option) \<and>
   Option_eq None \<lparr>file_name_bytes = ''option.h'', line = 54\<rparr>
     (None_opt Monostate :: unit Option) (None_opt Other :: nat Option) = Returned True \<and>
   is_some (Some_opt Other (1::int)) \<and>
   Option_eq None \<lparr>file_name_bytes = ''option.h'', line = 54\<rparr>
     (None_opt Monostate :: unit Option) (Some_opt Other (1::int)) = Returned False \<and>
   Option_eq None \<lparr>file_name_bytes = ''option.h'', line = 54\<rparr>
     (Some_opt Other (1::int)) (None_opt Monostate :: unit Option) = Returned False \<and>
   Option_eq (Some (=)) \<lparr>file_name_bytes = ''option.h'', line = 54\<rparr>
     (Some_opt Other (1::int)) (Some_opt Other (1::int)) = Returned True \<and>
   is_some (Some_opt Other ''x'') \<and>
   Option_eq None \<lparr>file_name_bytes = ''option.h'', line = 54\<rparr>
     (Some_opt Other (1::int)) (Some_opt Other ''x'') = Returned False"
proof -
  have h: "is_none (None_opt Monostate :: unit Option)" "is_none (None_opt Other :: nat Option)"
    "is_some (Some_opt Other (1::int))" "is_some (Some_opt Other ''x'')"
    by (simp_all add: None_opt_def is_none_Option_empty is_some_Some_opt)
  have b: "base (Some_opt Other (1::int)) = Some 1" "base (Some_opt Other ''x'') = Some ''x''"
    by (simp_all add: base_Some_opt)
  from h b
    Option_eq_trichotomy [where a = "None_opt Monostate :: unit Option"
      and b = "None_opt Other :: nat Option" and cmp = None
      and loc = "\<lparr>file_name_bytes = ''option.h'', line = 54\<rparr>"]
    Option_eq_trichotomy [where a = "None_opt Monostate :: unit Option"
      and b = "Some_opt Other (1::int)" and cmp = None
      and loc = "\<lparr>file_name_bytes = ''option.h'', line = 54\<rparr>"]
    Option_eq_trichotomy [where a = "Some_opt Other (1::int)"
      and b = "None_opt Monostate :: unit Option" and cmp = None
      and loc = "\<lparr>file_name_bytes = ''option.h'', line = 54\<rparr>"]
    Option_eq_trichotomy [where a = "Some_opt Other (1::int)"
      and b = "Some_opt Other (1::int)" and cmp = "Some (=)"
      and loc = "\<lparr>file_name_bytes = ''option.h'', line = 54\<rparr>"]
    Option_eq_trichotomy [where a = "Some_opt Other (1::int)"
      and b = "Some_opt Other ''x''" and cmp = None
      and loc = "\<lparr>file_name_bytes = ''option.h'', line = 54\<rparr>"]
  show ?thesis by simp
qed

text \<open>
  C2. An Option whose payload type is \<^verbatim>\<open>std::monostate\<close> never reports \<^verbatim>\<open>is_some()\<close> and
  always reports \<^verbatim>\<open>is_none()\<close>, whatever its optional holds (so also when it was built from a
  monostate value), and it is equal to every empty Option, on either side of \<^verbatim>\<open>==\<close>.
\<close>

theorem monostate_never_some:
  "ty m = Monostate \<Longrightarrow>
     \<not> is_some m \<and> is_none m \<and>
     (is_none e \<longrightarrow>
        Option_eq cmp loc e m = Returned True \<and> Option_eq cmp' loc' m e = Returned True)"
  by (simp add: is_none_def is_some_def Option_eq_def eq_monostate_def eq_comparable_def
      eq_incomparable_def split: option.split)

theorem monostate_never_some_witness:
  "ty (Some_opt Monostate ()) = Monostate \<and> has_value (Some_opt Monostate ()) \<and>
   \<not> is_some (Some_opt Monostate ()) \<and> is_none (Some_opt Monostate ()) \<and>
   is_none (None_opt Other :: int Option) \<and>
   Option_eq None \<lparr>file_name_bytes = ''option.h'', line = 54\<rparr> (None_opt Other :: int Option)
     (Some_opt Monostate ()) = Returned True \<and>
   Option_eq None \<lparr>file_name_bytes = ''option.h'', line = 54\<rparr> (Some_opt Monostate ())
     (None_opt Other :: int Option) = Returned True"
proof -
  have h: "ty (Some_opt Monostate ()) = Monostate" "has_value (Some_opt Monostate ())"
    "is_none (None_opt Other :: int Option)"
    by (simp_all add: ty_Some_opt has_value_def base_Some_opt None_opt_def is_none_Option_empty)
  from h monostate_never_some [where m = "Some_opt Monostate ()"
      and e = "None_opt Other :: int Option" and cmp = None and cmp' = None
      and loc = "\<lparr>file_name_bytes = ''option.h'', line = 54\<rparr>"
      and loc' = "\<lparr>file_name_bytes = ''option.h'', line = 54\<rparr>"]
  show ?thesis by simp
qed


section \<open>Option: combinators\<close>

text \<open>
  C3. \<^verbatim>\<open>map(f)\<close> and \<^verbatim>\<open>and_then(f)\<close> on an empty Option, typed or the untyped marker,
  return an empty Option and never invoke \<^verbatim>\<open>f\<close>: the result does not depend on the
  closure, and the state a call of the closure would change is left as it was.
\<close>

theorem map_and_then_lazy:
  fixes this :: "'a Option" and m :: "'m Option"
    and f :: "('a, 'b, 's) fn" and g :: "('a, 'b Option, 's) fn"
    and f' :: "('r, 'b, 's) fn" and g' :: "('r, 'b Option, 's) fn"
  shows
  "(is_none this \<longrightarrow>
      Option_map U f this s = (Returned (Option_empty U), s) \<and>
      Option_and_then U g this s = (Returned (Option_empty U), s)) \<and>
   Option_monostate_map U f' m s = (Returned (Option_empty U), s) \<and>
   Option_monostate_and_then U g' m s = (Returned (Option_empty U), s) \<and>
   is_none (Option_empty U :: 'b Option)"
  by (simp add: Option_map_def Option_and_then_def Option_monostate_map_def
      Option_monostate_and_then_def ret_def is_none_Option_empty)

text \<open>The closures of the witness count their calls; the counter stays at 0.\<close>

theorem map_and_then_lazy_witness:
  "is_none (None_opt Other :: string Option) \<and>
   Option_map Other (\<lambda>v n. (length v, Suc n)) (None_opt Other :: string Option) (0::nat)
     = (Returned (Option_empty Other), 0) \<and>
   Option_and_then Other (\<lambda>v n. (Some_opt Other (length v), Suc n))
     (None_opt Other :: string Option) (0::nat) = (Returned (Option_empty Other), 0) \<and>
   Option_monostate_map Other (\<lambda>v n. (length (v::string), Suc n))
     (None_opt Monostate :: unit Option) (0::nat) = (Returned (Option_empty Other), 0) \<and>
   Option_monostate_and_then Other (\<lambda>v n. (Some_opt Other (length (v::string)), Suc n))
     (None_opt Monostate :: unit Option) (0::nat) = (Returned (Option_empty Other), 0)"
proof -
  have h: "is_none (None_opt Other :: string Option)"
    by (simp add: None_opt_def is_none_Option_empty)
  from h map_and_then_lazy [where this = "None_opt Other :: string Option" and U = Other
      and f = "\<lambda>v n. (length v, Suc n)" and s = "0::nat"
      and g = "\<lambda>v n. (Some_opt Other (length v), Suc n)"
      and f' = "\<lambda>v n. (length (v::string), Suc n)"
      and m = "None_opt Monostate :: unit Option"
      and g' = "\<lambda>v n. (Some_opt Other (length (v::string)), Suc n)"]
  show ?thesis by simp
qed




text \<open>
  C9. \<^verbatim>\<open>xor_b\<close> returns an occupied Option exactly when one operand is occupied and the
  other is not, and then it returns the occupied operand; otherwise it returns an empty
  Option. This holds for each overload; an operand that is the untyped marker counts as an
  empty operand of the other operand's type.
\<close>

theorem Option_xor_b_exactly_one:
  fixes a b :: "'a Option" and n m :: "'m Option" and u :: "'u Option"
  shows
  "(is_some (Option_xor_b a b) \<longleftrightarrow> is_some a \<noteq> is_some b) \<and>
   (is_some a \<and> is_none b \<longrightarrow> Option_xor_b a b = a) \<and>
   (is_none a \<and> is_some b \<longrightarrow> Option_xor_b a b = b) \<and>
   (is_some a = is_some b \<longrightarrow> Option_xor_b a b = Option_empty (ty a)) \<and>
   (ty n = Monostate \<longrightarrow>
      (is_some (Option_xor_b_None a n) \<longleftrightarrow> is_some a \<noteq> is_some n) \<and>
      Option_xor_b_None a n = (if is_some a then a else Option_empty (ty a)) \<and>
      Option_xor_b_None a n = Option_xor_b a (Option_empty (ty a))) \<and>
   (ty m = Monostate \<longrightarrow>
      (is_some (Option_monostate_xor_b m u) \<longleftrightarrow> is_some m \<noteq> is_some u) \<and>
      Option_monostate_xor_b m u = (if is_some u then u else Option_empty (ty u)) \<and>
      Option_monostate_xor_b m u = Option_xor_b (Option_empty (ty u)) u)"
proof (intro conjI impI)
  show "is_some (Option_xor_b a b) \<longleftrightarrow> is_some a \<noteq> is_some b"
    by (auto simp: Option_xor_b_def is_none_def not_is_some_Option_empty)
next
  assume "is_some a \<and> is_none b"
  then show "Option_xor_b a b = a" by (simp add: Option_xor_b_def)
next
  assume "is_none a \<and> is_some b"
  then show "Option_xor_b a b = b" by (auto simp: Option_xor_b_def is_none_def)
next
  assume "is_some a = is_some b"
  then show "Option_xor_b a b = Option_empty (ty a)"
    by (auto simp: Option_xor_b_def is_none_def)
next
  assume "ty n = Monostate"
  then have n: "\<not> is_some n" by (simp add: is_some_def)
  then show "is_some (Option_xor_b_None a n) \<longleftrightarrow> is_some a \<noteq> is_some n"
    by (simp add: Option_xor_b_None_def not_is_some_Option_empty)
next
  show "Option_xor_b_None a n = (if is_some a then a else Option_empty (ty a))"
    by (simp add: Option_xor_b_None_def)
next
  show "Option_xor_b_None a n = Option_xor_b a (Option_empty (ty a))"
    by (simp add: Option_xor_b_None_def Option_xor_b_def is_none_Option_empty
        not_is_some_Option_empty)
next
  assume "ty m = Monostate"
  then have m: "\<not> is_some m" by (simp add: is_some_def)
  then show "is_some (Option_monostate_xor_b m u) \<longleftrightarrow> is_some m \<noteq> is_some u"
    by (simp add: Option_monostate_xor_b_def not_is_some_Option_empty)
next
  show "Option_monostate_xor_b m u = (if is_some u then u else Option_empty (ty u))"
    by (simp add: Option_monostate_xor_b_def)
next
  show "Option_monostate_xor_b m u = Option_xor_b (Option_empty (ty u)) u"
    by (simp add: Option_monostate_xor_b_def Option_xor_b_def is_none_Option_empty
        not_is_some_Option_empty ty_Option_empty is_none_def)
qed

text \<open>
  \<^verbatim>\<open>Some(2).xor_b(None<int>())\<close>, \<^verbatim>\<open>None<int>().xor_b(Some(2))\<close>, \<^verbatim>\<open>Some(2).xor_b(Some(2))\<close>,
  \<^verbatim>\<open>Some(2).xor_b(None())\<close> and \<^verbatim>\<open>None().xor_b(Some(2))\<close>.
\<close>

theorem Option_xor_b_exactly_one_witness:
  "is_some (Some_opt Other (2::int)) \<and> is_none (None_opt Other :: int Option) \<and>
   Option_xor_b (Some_opt Other (2::int)) (None_opt Other) = Some_opt Other 2 \<and>
   Option_xor_b (None_opt Other) (Some_opt Other (2::int)) = Some_opt Other 2 \<and>
   Option_xor_b (Some_opt Other (2::int)) (Some_opt Other 2) = Option_empty Other \<and>
   \<not> is_some (Option_xor_b (Some_opt Other (2::int)) (Some_opt Other 2)) \<and>
   ty (None_opt Monostate :: unit Option) = Monostate \<and>
   Option_xor_b_None (Some_opt Other (2::int)) (None_opt Monostate :: unit Option)
     = Some_opt Other 2 \<and>
   Option_monostate_xor_b (None_opt Monostate :: unit Option) (Some_opt Other (2::int))
     = Some_opt Other 2"
proof -
  have h: "is_some (Some_opt Other (2::int))" "is_none (None_opt Other :: int Option)"
    "ty (None_opt Monostate :: unit Option) = Monostate"
    by (simp_all add: is_some_Some_opt None_opt_def is_none_Option_empty ty_Option_empty)
  have t: "ty (Some_opt Other (2::int)) = Other" "ty (None_opt Other :: int Option) = Other"
    by (simp_all add: ty_Some_opt None_opt_def ty_Option_empty)
  from h have h': "\<not> is_none (Some_opt Other (2::int))" "\<not> is_some (None_opt Other :: int Option)"
    by (simp_all add: is_none_def)
  from h h' t
    Option_xor_b_exactly_one [where a = "Some_opt Other (2::int)" and b = "None_opt Other"
      and n = "None_opt Monostate :: unit Option" and m = "None_opt Monostate :: unit Option"
      and u = "Some_opt Other (2::int)"]
    Option_xor_b_exactly_one [where a = "None_opt Other" and b = "Some_opt Other (2::int)"
      and n = "None_opt Monostate :: unit Option" and m = "None_opt Monostate :: unit Option"
      and u = "Some_opt Other (2::int)"]
    Option_xor_b_exactly_one [where a = "Some_opt Other (2::int)" and b = "Some_opt Other (2::int)"
      and n = "None_opt Monostate :: unit Option" and m = "None_opt Monostate :: unit Option"
      and u = "Some_opt Other (2::int)"]
  show ?thesis by (simp add: not_is_some_Option_empty)
qed


section \<open>The fatal path\<close>

text \<open>
  C6. \<^verbatim>\<open>unwrap()\<close> on an occupied Option returns the payload and does not abort. On an
  empty Option it aborts: the process ends with the diagnostic
  \<^verbatim>\<open>panicked at <file>:<line>\<close>, a newline, the fixed text
  \<^verbatim>\<open>called `Option::unwrap()` on a `None` value\<close> and a newline, where file and line are those
  of the caller. The diagnostic therefore matches
  \<^verbatim>\<open>panicked at .*\ncalled .*unwrap.* on a .*None.* value\<close>.
\<close>

theorem Option_unwrap_fatal:
  "(is_some this \<longrightarrow> (\<exists>v. base this = Some v \<and> Option_unwrap loc this = Returned v)) \<and>
   (is_none this \<longrightarrow>
      Option_unwrap loc this =
        Aborted (''panicked at '' @ file_name loc @ '':'' @ to_dec (line loc) @
                 ''\<newline>called `Option::unwrap()` on a `None` value\<newline>'') \<and>
      (\<exists>a b c d e rest.
         Option_unwrap loc this =
           Aborted (''panicked at '' @ a @ ''\<newline>called '' @ b @ ''unwrap'' @ c @ '' on a '' @ d
                    @ ''None'' @ e @ '' value'' @ rest)))"
proof (intro conjI impI)
  assume "is_some this"
  then show "\<exists>v. base this = Some v \<and> Option_unwrap loc this = Returned v"
    by (auto simp: Option_unwrap_some is_some_iff)
next
  assume "is_none this"
  then show m: "Option_unwrap loc this =
        Aborted (''panicked at '' @ file_name loc @ '':'' @ to_dec (line loc) @
                 ''\<newline>called `Option::unwrap()` on a `None` value\<newline>'')"
    by (simp add: Option_unwrap_def is_none_def panic_impl_unwrap_message)
  have "''panicked at '' @ file_name loc @ '':'' @ to_dec (line loc) @
          ''\<newline>called `Option::unwrap()` on a `None` value\<newline>''
        = ''panicked at '' @ (file_name loc @ '':'' @ to_dec (line loc)) @ ''\<newline>called '' @
          ''`Option::'' @ ''unwrap'' @ ''()`'' @ '' on a '' @ ''`'' @ ''None'' @ ''`'' @ '' value''
          @ ''\<newline>''"
    by simp
  with m show "\<exists>a b c d e rest.
         Option_unwrap loc this =
           Aborted (''panicked at '' @ a @ ''\<newline>called '' @ b @ ''unwrap'' @ c @ '' on a '' @ d
                    @ ''None'' @ e @ '' value'' @ rest)"
    by metis
qed

text \<open>The two calls of the test of \<^verbatim>\<open>unwrap\<close>, at lines 94 and 95 of its file.\<close>

theorem Option_unwrap_fatal_witness:
  "is_some (Some_opt Other ''foo'') \<and>
   Option_unwrap \<lparr>file_name_bytes = ''option_test.cpp'', line = 95\<rparr> (Some_opt Other ''foo'')
     = Returned ''foo'' \<and>
   is_none (None_opt Monostate :: unit Option) \<and>
   Option_unwrap \<lparr>file_name_bytes = ''option_test.cpp'', line = 94\<rparr>
     (None_opt Monostate :: unit Option)
     = Aborted ''panicked at option_test.cpp:94\<newline>called `Option::unwrap()` on a `None` value\<newline>''"
proof -
  have h: "is_some (Some_opt Other ''foo'')" "is_none (None_opt Monostate :: unit Option)"
    by (simp_all add: is_some_Some_opt None_opt_def is_none_Option_empty)
  have b: "base (Some_opt Other ''foo'') = Some ''foo''"
    by (simp add: base_Some_opt)
  have f: "file_name \<lparr>file_name_bytes = ''option_test.cpp'', line = 94\<rparr> = ''option_test.cpp''"
    by (rule file_name_literal) simp
  from h b f
    Option_unwrap_fatal [where this = "Some_opt Other ''foo''"
      and loc = "\<lparr>file_name_bytes = ''option_test.cpp'', line = 95\<rparr>"]
    Option_unwrap_fatal [where this = "None_opt Monostate :: unit Option"
      and loc = "\<lparr>file_name_bytes = ''option_test.cpp'', line = 94\<rparr>"]
  show ?thesis by (simp add: to_dec_94)
qed

text \<open>
  C7. \<^verbatim>\<open>expect(msg)\<close> on an Ok Result returns the value and does not abort. On an Err
  Result it aborts. The message formatted is the line \<^verbatim>\<open>panicked at <file>:<line>\<close> followed
  by the caller's message, a colon and a space, and the string of the Err payload, and what
  reaches the error stream is the C string of that message: \<^verbatim>\<open>Err(17).expect("msg")\<close> emits
  \<^verbatim>\<open>panicked at <file>:<line>\<close>, a newline and \<^verbatim>\<open>msg: 17\<close>, but for the message
  \<^verbatim>\<open>std::string("a\0b", 3)\<close> the diagnostic ends after \<^verbatim>\<open>a\<close>: the rest of the message, the
  colon and the payload are not emitted.
\<close>

theorem Result_expect_truncated_at_nul:
  fixes v :: 't and e :: 'e and to_string :: "'e \<Rightarrow> string"
  shows
  "Result_expect to_string msg loc (Ok v :: ('t, 'e) Result) = Returned v \<and>
   Result_expect to_string msg loc (Err e :: ('t, 'e) Result) =
     Aborted (c_str (''panicked at '' @ file_name loc @ '':'' @ to_dec (line loc) @ ''\<newline>'' @
                     msg @ '': '' @ to_string e @ ''\<newline>'')) \<and>
   Result_expect to_string_int ''msg'' loc (Err 17 :: ('t, int) Result) =
     Aborted (''panicked at '' @ file_name loc @ '':'' @ to_dec (line loc) @
              ''\<newline>msg: 17\<newline>'') \<and>
   Result_expect to_string_int (''a'' @ [CHR 0x00] @ ''b'')
     \<lparr>file_name_bytes = ''main.cpp'', line = 42\<rparr> (Err 17 :: ('t, int) Result) =
     Aborted ''panicked at main.cpp:42\<newline>a''"
proof (intro conjI)
  show "Result_expect to_string msg loc (Ok v :: ('t, 'e) Result) = Returned v"
    by (simp add: Result_expect_def is_ok_Ok get_Ok)
  show g: "\<And>(msg :: string) (to_string :: 'x \<Rightarrow> string) loc (e :: 'x).
      Result_expect to_string msg loc (Err e :: ('t, 'x) Result) =
        Aborted (c_str (''panicked at '' @ file_name loc @ '':'' @ to_dec (line loc) @ ''\<newline>'' @
                        msg @ '': '' @ to_string e @ ''\<newline>''))"
    by (simp add: Result_expect_def is_ok_Err get_Err panic_impl_message)
  have "CHR 0x00 \<notin> set (''panicked at '' @ file_name loc @ '':'' @ to_dec (line loc) @
          ''\<newline>msg: 17\<newline>'')"
    by (simp add: nul_notin_file_name nul_notin_to_dec)
  then have "c_str (''panicked at '' @ file_name loc @ '':'' @ to_dec (line loc) @
          ''\<newline>msg: 17\<newline>'')
        = ''panicked at '' @ file_name loc @ '':'' @ to_dec (line loc) @ ''\<newline>msg: 17\<newline>''"
    by (rule c_str_id)
  then show "Result_expect to_string_int ''msg'' loc (Err 17 :: ('t, int) Result) =
     Aborted (''panicked at '' @ file_name loc @ '':'' @ to_dec (line loc) @
              ''\<newline>msg: 17\<newline>'')"
    by (simp add: g to_string_int_17)
  have f: "file_name \<lparr>file_name_bytes = ''main.cpp'', line = 42\<rparr> = ''main.cpp''"
    by (rule file_name_literal) simp
  show "Result_expect to_string_int (''a'' @ [CHR 0x00] @ ''b'')
     \<lparr>file_name_bytes = ''main.cpp'', line = 42\<rparr> (Err 17 :: ('t, int) Result) =
     Aborted ''panicked at main.cpp:42\<newline>a''"
    by (simp add: g f to_dec_42 c_str_def)
qed


section \<open>Result\<close>

text \<open>
  C5. \<^verbatim>\<open>map(f)\<close> applies \<^verbatim>\<open>f\<close> to the payload of an Ok and passes an Err on with its payload
  unchanged and \<^verbatim>\<open>f\<close> not invoked; \<^verbatim>\<open>map_err(f)\<close> applies \<^verbatim>\<open>f\<close> to the payload of an Err and
  passes an Ok on likewise. So \<^verbatim>\<open>Ok(2).map_err(f) == Ok(2)\<close> for every \<^verbatim>\<open>f\<close>, and
  \<^verbatim>\<open>Err(13).map_err(to_string) == Err("error code: 13")\<close> for
  \<^verbatim>\<open>to_string(x) = "error code: " + std::to_string(x)\<close>. A Result is an Ok, an Err or
  valueless; on a valueless one both functions throw from \<^verbatim>\<open>std::get<1>\<close> before \<^verbatim>\<open>f\<close> could
  be invoked.
\<close>

theorem Result_map_pass_through:
  fixes v :: 't and e :: 'e and f :: "('t, 'u, 's) fn" and g :: "('e, 'f, 's) fn"
    and g' :: "('e, 'f, 's) fn" and r :: "('t, 'e) Result"
  shows
  "Result_map f (Ok v :: ('t, 'e) Result) s = (Returned (Ok (fst (f v s))), snd (f v s)) \<and>
   Result_map f (Err e :: ('t, 'e) Result) s = (Returned (Err e), s) \<and>
   Result_map_err g (Ok v :: ('t, 'e) Result) s = (Returned (Ok v), s) \<and>
   Result_map_err g (Err e :: ('t, 'e) Result) s = (Returned (Err (fst (g e s))), snd (g e s)) \<and>
   Result_map_err g' (Ok 2 :: (int, 'e) Result) s = (Returned (Ok 2), s) \<and>
   Result_map_err (\<lambda>x t. (''error code: '' @ to_string_int x, t)) (Err 13 :: ('t, int) Result) s
     = (Returned (Err ''error code: 13''), s) \<and>
   Result_map f (Result Valueless :: ('t, 'e) Result) s = (Thrown bad_variant_access, s) \<and>
   Result_map_err g (Result Valueless :: ('t, 'e) Result) s = (Thrown bad_variant_access, s) \<and>
   ((\<exists>v. r = Ok v) \<or> (\<exists>e. r = Err e) \<or> r = Result Valueless)"
  by (simp add: Result_map_def Result_map_err_def is_ok_Ok is_ok_Err is_ok_Valueless
      get_Ok get_Err get_Valueless bnd_def lift_def call_def ret_def
      Ok_def [symmetric] Err_def [symmetric] to_string_int_13 Result_cases split: prod.split)

text \<open>The closures of the witness count their calls.\<close>

theorem Result_map_pass_through_witness:
  "Result_map (\<lambda>x n. (2 * x, Suc n)) (Ok 21 :: (int, int) Result) (0::nat)
     = (Returned (Ok 42), 1) \<and>
   Result_map (\<lambda>x n. (2 * x, Suc n)) (Err (- 1) :: (int, int) Result) (0::nat)
     = (Returned (Err (- 1)), 0) \<and>
   Result_map_err (\<lambda>x n. (''error code: '' @ to_string_int x, Suc n))
     (Ok 21 :: (int, int) Result) (0::nat) = (Returned (Ok 21), 0) \<and>
   Result_map_err (\<lambda>x n. (''error code: '' @ to_string_int x, Suc n))
     (Err 13 :: (int, int) Result) (0::nat) = (Returned (Err ''error code: 13''), 1)"
  using Result_map_pass_through [where f = "\<lambda>x n. (2 * x, Suc n)" and v = "21::int"
      and e = "- 1 :: int" and s = "0::nat"
      and g = "\<lambda>x n. (''error code: '' @ to_string_int x, Suc n)"
      and g' = "\<lambda>x n. (''error code: '' @ to_string_int x, Suc n)"
      and r = "Ok 21 :: (int, int) Result"]
    Result_map_pass_through [where f = "\<lambda>x n. (2 * x, Suc n)" and v = "21::int"
      and e = "13 :: int" and s = "0::nat"
      and g = "\<lambda>x n. (''error code: '' @ to_string_int x, Suc n)"
      and g' = "\<lambda>x n. (''error code: '' @ to_string_int x, Suc n)"
      and r = "Ok 21 :: (int, int) Result"]
  by (simp add: to_string_int_13)

text \<open>
  C10, as stated, fails at two kinds of Result. Where a payload type is
  \<^verbatim>\<open>std::monostate\<close>: \<^verbatim>\<open>Ok<std::monostate, int>(std::monostate{})\<close> is Ok, its \<^verbatim>\<open>ok()\<close> is the
  \<^verbatim>\<open>Option<std::monostate>\<close> built from the payload, and that Option does not report
  \<^verbatim>\<open>is_some()\<close>. And at a Result built from a valueless variant, where \<^verbatim>\<open>is_ok()\<close> and
  \<^verbatim>\<open>is_err()\<close> are both false.
\<close>

theorem Result_ok_monostate_counterexample:
  "is_ok (Ok () :: (unit, int) Result) \<and>
   Result_ok Monostate (Ok () :: (unit, int) Result) = Returned (Some_opt Monostate ()) \<and>
   \<not> is_some (Some_opt Monostate ()) \<and>
   \<not> is_ok (Result Valueless :: (int, string) Result) \<and>
   \<not> is_err (Result Valueless :: (int, string) Result)"
  by (simp add: is_ok_Ok Result_ok_simps is_some_Some_opt is_ok_Valueless is_err_Valueless)

text \<open>
  C10, amended. No Result is both Ok and Err, and every Result that holds a value is in
  exactly one of the two states: \<^verbatim>\<open>is_ok()\<close> and \<^verbatim>\<open>is_err()\<close> are then each other's negation.
  \<^verbatim>\<open>ok()\<close> is \<^verbatim>\<open>Some(v)\<close> with the payload when the Result is \<^verbatim>\<open>Ok(v)\<close> and the empty Option
  otherwise; \<^verbatim>\<open>err()\<close> is \<^verbatim>\<open>Some(e)\<close> when the Result is \<^verbatim>\<open>Err(e)\<close> and the empty Option
  otherwise. Where \<^verbatim>\<open>T\<close> is not \<^verbatim>\<open>std::monostate\<close>, \<^verbatim>\<open>ok()\<close> reports \<^verbatim>\<open>is_some()\<close> exactly when
  the Result is Ok; where \<^verbatim>\<open>E\<close> is not \<^verbatim>\<open>std::monostate\<close>, \<^verbatim>\<open>err()\<close> reports \<^verbatim>\<open>is_some()\<close>
  exactly when it is Err.
\<close>

theorem Result_exactly_one_state:
  fixes r :: "('t, 'e) Result"
  shows
  "\<not> (is_ok r \<and> is_err r) \<and>
   (variant r \<noteq> Valueless \<longrightarrow> is_ok r = (\<not> is_err r)) \<and>
   (is_ok r \<longrightarrow> (\<exists>v. r = Ok v \<and> Result_ok T r = Returned (Some_opt T v) \<and>
                     Result_err E r = Returned (None_opt E))) \<and>
   (is_err r \<longrightarrow> (\<exists>e. r = Err e \<and> Result_err E r = Returned (Some_opt E e) \<and>
                     Result_ok T r = Returned (None_opt T))) \<and>
   (\<not> is_ok r \<longrightarrow> Result_ok T r = Returned (None_opt T)) \<and>
   (\<not> is_err r \<longrightarrow> Result_err E r = Returned (None_opt E)) \<and>
   (T \<noteq> Monostate \<longrightarrow> (\<exists>opt. Result_ok T r = Returned opt \<and> (is_some opt \<longleftrightarrow> is_ok r))) \<and>
   (E \<noteq> Monostate \<longrightarrow> (\<exists>opt. Result_err E r = Returned opt \<and> (is_some opt \<longleftrightarrow> is_err r)))"
proof -
  consider v where "r = Ok v" | e where "r = Err e" | "r = Result Valueless"
    using Result_cases [of r] by blast
  then show ?thesis
  proof cases
    case 1
    then show ?thesis
      by (auto simp: is_ok_Ok is_err_Ok Result_ok_simps Result_err_simps is_some_Some_opt
          None_opt_def not_is_some_Option_empty variant_Ok)
  next
    case 2
    then show ?thesis
      by (auto simp: is_ok_Err is_err_Err Result_ok_simps Result_err_simps is_some_Some_opt
          None_opt_def not_is_some_Option_empty variant_Err)
  next
    case 3
    then show ?thesis
      by (simp add: is_ok_Valueless is_err_Valueless Result_ok_def Result_err_def None_opt_def
          not_is_some_Option_empty)
  qed
qed

theorem Result_exactly_one_state_witness:
  "is_ok (Ok (2::nat) :: (nat, string) Result) \<and>
   \<not> is_err (Ok (2::nat) :: (nat, string) Result) \<and>
   variant (Ok (2::nat) :: (nat, string) Result) \<noteq> Valueless \<and>
   Result_ok Other (Ok (2::nat) :: (nat, string) Result) = Returned (Some_opt Other 2) \<and>
   Result_err Other (Ok (2::nat) :: (nat, string) Result) = Returned (None_opt Other) \<and>
   is_err (Err ''Nothing here'' :: (nat, string) Result) \<and>
   \<not> is_ok (Err ''Nothing here'' :: (nat, string) Result) \<and>
   variant (Err ''Nothing here'' :: (nat, string) Result) \<noteq> Valueless \<and>
   Result_err Other (Err ''Nothing here'' :: (nat, string) Result)
     = Returned (Some_opt Other ''Nothing here'') \<and>
   Result_ok Other (Err ''Nothing here'' :: (nat, string) Result) = Returned (None_opt Other) \<and>
   Other \<noteq> Monostate"
proof -
  have h: "is_ok (Ok (2::nat) :: (nat, string) Result)"
    "is_err (Err ''Nothing here'' :: (nat, string) Result)" "Other \<noteq> Monostate"
    "variant (Ok (2::nat) :: (nat, string) Result) \<noteq> Valueless"
    "variant (Err ''Nothing here'' :: (nat, string) Result) \<noteq> Valueless"
    by (simp_all add: is_ok_Ok is_err_Err variant_Ok variant_Err)
  have inj: "\<And>v. (Ok (2::nat) :: (nat, string) Result) = Ok v \<longleftrightarrow> v = 2"
    "\<And>e. (Err ''Nothing here'' :: (nat, string) Result) = Err e \<longleftrightarrow> e = ''Nothing here''"
    by (auto simp: Ok_def Err_def)
  from h
    Result_exactly_one_state [where r = "Ok (2::nat) :: (nat, string) Result" and T = Other
      and E = Other]
    Result_exactly_one_state [where r = "Err ''Nothing here'' :: (nat, string) Result"
      and T = Other and E = Other]
  show ?thesis by (auto simp: inj)
qed


section \<open>Between Option and Result\<close>

text \<open>
  C4, as stated, fails for a payload of type \<^verbatim>\<open>std::monostate\<close>:
  \<^verbatim>\<open>Some(std::monostate{})\<close> is an \<^verbatim>\<open>Option<std::monostate>\<close>, which reports \<^verbatim>\<open>is_none()\<close>, so
  its \<^verbatim>\<open>ok_or(0)\<close> is \<^verbatim>\<open>Err(0)\<close> and not \<^verbatim>\<open>Ok\<close> of the payload.
\<close>

theorem ok_or_monostate_counterexample:
  "Option_ok_or (0::int) (Some_opt Monostate ()) = Returned (Err 0) \<and>
   Returned (Err (0::int)) \<noteq> Returned (Ok ())"
  by (simp add: Option_ok_or_def is_none_iff Some_opt_def Option_value_def Err_def Ok_def)

text \<open>
  C4, amended. For every value \<^verbatim>\<open>x\<close> of a payload type other than \<^verbatim>\<open>std::monostate\<close> and
  every error \<^verbatim>\<open>e\<close>, \<^verbatim>\<open>Some(x).ok_or(e)\<close> is \<^verbatim>\<open>Ok(x)\<close>, hence \<^verbatim>\<open>Some(x).ok_or(e).ok()\<close> is
  \<^verbatim>\<open>Some(x)\<close>, and \<^verbatim>\<open>Some(x).ok_or_else(f)\<close> is \<^verbatim>\<open>Ok(x)\<close> with \<^verbatim>\<open>f\<close> not invoked. On an empty
  Option, \<^verbatim>\<open>ok_or(e)\<close> is \<^verbatim>\<open>Err(e)\<close> and \<^verbatim>\<open>ok_or_else(f)\<close> is \<^verbatim>\<open>Err(f())\<close>; every Option
  of payload type \<^verbatim>\<open>std::monostate\<close> is empty. \<^verbatim>\<open>Result::ok()\<close> maps \<^verbatim>\<open>Ok(v)\<close> to \<^verbatim>\<open>Some(v)\<close>
  and an Err to the empty Option.
\<close>

theorem ok_or_round_trip:
  fixes x :: 'a and e :: 'e and f :: "('e, 's) fn0" and this :: "'c Option"
  shows
  "(T \<noteq> Monostate \<longrightarrow>
      Option_ok_or e (Some_opt T x) = Returned (Ok x) \<and>
      seq (Option_ok_or e (Some_opt T x)) (Result_ok T) = Returned (Some_opt T x) \<and>
      Option_ok_or_else f (Some_opt T x) s = (Returned (Ok x), s)) \<and>
   (is_none this \<longrightarrow>
      Option_ok_or e this = Returned (Err e) \<and>
      Option_ok_or_else f this s = (Returned (Err (fst (f s))), snd (f s))) \<and>
   (ty this = Monostate \<longrightarrow> is_none this) \<and>
   Result_ok T (Ok x :: ('a, 'e) Result) = Returned (Some_opt T x) \<and>
   Result_ok T (Err e :: ('a, 'e) Result) = Returned (None_opt T)"
proof (intro conjI impI)
  assume T: "T \<noteq> Monostate"
  then have some: "is_some (Some_opt T x)"
    by (simp add: is_some_Some_opt)
  have b: "base (Some_opt T x) = Some x"
    by (simp add: base_Some_opt)
  from some b show ok: "Option_ok_or e (Some_opt T x) = Returned (Ok x)"
    by (simp add: Option_ok_or_some)
  then show "seq (Option_ok_or e (Some_opt T x)) (Result_ok T) = Returned (Some_opt T x)"
    by (simp add: Result_ok_simps)
  from some b show "Option_ok_or_else f (Some_opt T x) s = (Returned (Ok x), s)"
    by (simp add: Option_ok_or_else_def is_none_def is_some_value bnd_def lift_def ret_def Ok_def)
next
  assume n: "is_none this"
  then show "Option_ok_or e this = Returned (Err e)"
    by (rule Option_ok_or_none)
  from n show "Option_ok_or_else f this s = (Returned (Err (fst (f s))), snd (f s))"
    by (simp add: Option_ok_or_else_def bnd_def call0_def ret_def Err_def split: prod.split)
next
  assume "ty this = Monostate"
  then show "is_none this" by (simp add: is_none_iff)
qed (simp_all add: Result_ok_simps)

text \<open>
  \<^verbatim>\<open>Some("foo").ok_or(0)\<close> and the Option built from a monostate value; the closure of
  \<^verbatim>\<open>ok_or_else\<close> counts its calls.
\<close>

theorem ok_or_round_trip_witness:
  "Other \<noteq> Monostate \<and>
   Option_ok_or (0::int) (Some_opt Other ''foo'') = Returned (Ok ''foo'') \<and>
   seq (Option_ok_or (0::int) (Some_opt Other ''foo'')) (Result_ok Other)
     = Returned (Some_opt Other ''foo'') \<and>
   Option_ok_or_else (\<lambda>n. (0::int, Suc n)) (Some_opt Other ''foo'') (0::nat)
     = (Returned (Ok ''foo''), 0) \<and>
   ty (Some_opt Monostate ()) = Monostate \<and> is_none (Some_opt Monostate ()) \<and>
   Option_ok_or (0::int) (Some_opt Monostate ()) = Returned (Err 0) \<and>
   Option_ok_or_else (\<lambda>n. (0::int, Suc n)) (Some_opt Monostate ()) (0::nat)
     = (Returned (Err 0), 1)"
proof -
  have h: "Other \<noteq> Monostate" "ty (Some_opt Monostate ()) = Monostate"
    by (simp_all add: ty_Some_opt)
  from h ok_or_round_trip [where T = Other and e = "0::int" and x = "''foo''"
      and f = "\<lambda>n. (0::int, Suc n)" and s = "0::nat" and this = "Some_opt Monostate ()"]
  show ?thesis by simp
qed

end
